theory Spec2Isabelle
  imports Main "HOL-Library.Word" "HOL-Library.Sublist"
begin

section \<open>JavaScript values, errors and buffers\<close>

text \<open>
  The request body and the parsed envelope are untyped JSON: a field can be missing
  (\<open>Undefined\<close>) or hold any JSON value. JSON numbers are modelled by integers.
\<close>

datatype js_value =
    Undefined
  | Null
  | Bool bool
  | Num int
  | Str string
  | Arr "js_value list"
  | Obj "(string \<times> js_value) list"

datatype error_kind = Error | TypeError | SyntaxError | RangeError

datatype js_error = JsError (kind: error_kind) (message: string)

type_synonym byte = "8 word"

text \<open>JavaScript truthiness, as tested by \<open>!x\<close>.\<close>

fun truthy :: "js_value \<Rightarrow> bool" where
  "truthy Undefined = False"
| "truthy Null = False"
| "truthy (Bool b) = b"
| "truthy (Num n) = (n \<noteq> 0)"
| "truthy (Str s) = (s \<noteq> [])"
| "truthy (Arr xs) = True"
| "truthy (Obj kvs) = True"

text \<open>
  Property read \<open>v.k\<close> and destructuring \<open>const {k} = v\<close>: a TypeError on
  \<open>null\<close> and \<open>undefined\<close>, the own property of an object, and \<open>undefined\<close>
  for a key the value does not have (none of the keys read by the server is a built-in
  property of a string, number, boolean or array).
\<close>

fun get_prop :: "js_value \<Rightarrow> string \<Rightarrow> js_error + js_value" where
  "get_prop Undefined k = Inl (JsError TypeError ''Cannot read properties of undefined'')"
| "get_prop Null k = Inl (JsError TypeError ''Cannot read properties of null'')"
| "get_prop (Obj kvs) k = Inr (case map_of kvs k of None \<Rightarrow> Undefined | Some v \<Rightarrow> v)"
| "get_prop v k = Inr Undefined"

text \<open>Sequencing of computations that may throw: the first exception wins.\<close>

definition and_then :: "'e + 'a \<Rightarrow> ('a \<Rightarrow> 'e + 'b) \<Rightarrow> 'e + 'b" where
  "and_then r f = (case r of Inl e \<Rightarrow> Inl e | Inr a \<Rightarrow> f a)"

text \<open>
  \<open>buf.slice(start, end)\<close> of Node's Buffer: a negative index counts from the end,
  both indices are clamped to the buffer, and an empty range gives the empty buffer.
\<close>

definition clamp_index :: "int \<Rightarrow> int \<Rightarrow> int" where
  "clamp_index n i = (if i < 0 then max (n + i) 0 else min i n)"

definition slice :: "byte list \<Rightarrow> int \<Rightarrow> int \<Rightarrow> byte list" where
  "slice buf start end =
     (let n = int (length buf); s = clamp_index n start; e = clamp_index n end
      in if s < e then take (nat (e - s)) (drop (nat s) buf) else [])"

definition slice_from :: "byte list \<Rightarrow> int \<Rightarrow> byte list" where
  "slice_from buf start = slice buf start (int (length buf))"

section \<open>Secret decryption (decryptPrivateKey)\<close>

text \<open>
  The functions of Node's \<open>crypto\<close>, \<open>Buffer\<close> and \<open>JSON\<close> that
  \<open>decryptPrivateKey\<close> calls are library code: they are parameters of the model,
  each returning its exception as a value. \<open>'d\<close> is the state of a Decipher object.
\<close>

record 'd node_crypto =
  JSON_parse :: "string \<Rightarrow> js_error + js_value"
  Buffer_from :: "js_value \<Rightarrow> string \<Rightarrow> js_error + byte list"
  pbkdf2Sync :: "string \<Rightarrow> byte list \<Rightarrow> nat \<Rightarrow> nat \<Rightarrow> string \<Rightarrow> js_error + byte list"
  createDecipheriv :: "string \<Rightarrow> byte list \<Rightarrow> byte list \<Rightarrow> js_error + 'd"
  setAuthTag :: "'d \<Rightarrow> byte list \<Rightarrow> js_error + 'd"
  decipher_update :: "'d \<Rightarrow> byte list \<Rightarrow> js_error + byte list \<times> 'd"
  decipher_final :: "'d \<Rightarrow> js_error + byte list"
  toString_utf8 :: "byte list \<Rightarrow> string"

text \<open>\<open>s.replace(/-/g, '')\<close> on a string: every hyphen is dropped, nothing else changes.\<close>

fun replace_hyphens :: "string \<Rightarrow> string" where
  "replace_hyphens [] = []"
| "replace_hyphens (c # cs) =
     (if c = CHR ''-'' then replace_hyphens cs else c # replace_hyphens cs)"

text \<open>
  \<open>cardSecret.replace(/-/g, '')\<close> on a request field: only a string has the method
  \<open>replace\<close>.
\<close>

fun secret_replace :: "js_value \<Rightarrow> js_error + string" where
  "secret_replace (Str s) = Inr (replace_hyphens s)"
| "secret_replace Undefined = Inl (JsError TypeError ''Cannot read properties of undefined'')"
| "secret_replace Null = Inl (JsError TypeError ''Cannot read properties of null'')"
| "secret_replace v = Inl (JsError TypeError ''cardSecret.replace is not a function'')"

definition authTagLength :: nat where
  "authTagLength = 16"

text \<open>The body of the \<open>try\<close> block of \<open>decryptPrivateKey\<close> (server.js, lines 57 to 80).\<close>

definition decryptPrivateKey_try ::
  "'d node_crypto \<Rightarrow> string \<Rightarrow> js_value \<Rightarrow> js_error + string" where
  "decryptPrivateKey_try nc encryptedData cardSecret =
     and_then (JSON_parse nc encryptedData) (\<lambda>data.
     and_then (secret_replace cardSecret) (\<lambda>normalizedSecret.
     and_then (get_prop data ''salt'') (\<lambda>salt_field.
     and_then (Buffer_from nc salt_field ''hex'') (\<lambda>salt.
     and_then (get_prop data ''iv'') (\<lambda>iv_field.
     and_then (Buffer_from nc iv_field ''hex'') (\<lambda>iv.
     and_then (get_prop data ''ciphertext'') (\<lambda>ciphertext_field.
     and_then (Buffer_from nc ciphertext_field ''base64'') (\<lambda>ciphertext.
     and_then (pbkdf2Sync nc normalizedSecret salt 310000 32 ''sha256'') (\<lambda>key.
     if length ciphertext < authTagLength
     then Inl (JsError Error ''Invalid ciphertext length'')
     else
       let authTag = slice_from ciphertext (- int authTagLength);
           encryptedContent = slice ciphertext 0 (- int authTagLength)
       in
       and_then (createDecipheriv nc ''aes-256-gcm'' key iv) (\<lambda>decipher.
       and_then (setAuthTag nc decipher authTag) (\<lambda>decipher.
       and_then (decipher_update nc decipher encryptedContent) (\<lambda>(decrypted, decipher).
       and_then (decipher_final nc decipher) (\<lambda>final.
       Inr (toString_utf8 nc (decrypted @ final)))))))))))))))"

definition Invalid_card_secret :: js_error where
  "Invalid_card_secret = JsError Error ''Invalid card secret''"

text \<open>The whole function: the \<open>catch\<close> replaces every exception of the body.\<close>

definition decryptPrivateKey ::
  "'d node_crypto \<Rightarrow> string \<Rightarrow> js_value \<Rightarrow> js_error + string" where
  "decryptPrivateKey nc encryptedData cardSecret =
     (case decryptPrivateKey_try nc encryptedData cardSecret of
        Inl error \<Rightarrow> Inl Invalid_card_secret
      | Inr plaintext \<Rightarrow> Inr plaintext)"


section \<open>Configuration, chain registry and explorers\<close>

record config =
  ALCHEMY_KEY :: string
  PARTNER_ADDRESS :: string
  SERVICE_PRIVATE_KEY :: string

definition UNIVOUCHER_ADDRESS :: string where
  "UNIVOUCHER_ADDRESS = ''0x51553818203e38ce0E78e4dA05C07ac779ec5b58''"

definition AddressZero :: string where
  "AddressZero = ''0x0000000000000000000000000000000000000000''"

record chain =
  chain_name :: string
  chain_rpc :: string
  chain_symbol :: string
  chain_decimals :: nat

definition CHAINS :: "int \<rightharpoonup> chain" where
  "CHAINS = map_of
     [(1, \<lparr>chain_name = ''Ethereum'', chain_rpc = ''eth-mainnet'', chain_symbol = ''ETH'', chain_decimals = 18\<rparr>),
      (56, \<lparr>chain_name = ''BNB Chain'', chain_rpc = ''bnb-mainnet'', chain_symbol = ''BNB'', chain_decimals = 18\<rparr>),
      (137, \<lparr>chain_name = ''Polygon'', chain_rpc = ''polygon-mainnet'', chain_symbol = ''POL'', chain_decimals = 18\<rparr>),
      (10, \<lparr>chain_name = ''Optimism'', chain_rpc = ''opt-mainnet'', chain_symbol = ''ETH'', chain_decimals = 18\<rparr>),
      (42161, \<lparr>chain_name = ''Arbitrum'', chain_rpc = ''arb-mainnet'', chain_symbol = ''ETH'', chain_decimals = 18\<rparr>),
      (8453, \<lparr>chain_name = ''Base'', chain_rpc = ''base-mainnet'', chain_symbol = ''ETH'', chain_decimals = 18\<rparr>),
      (43114, \<lparr>chain_name = ''Avalanche'', chain_rpc = ''avax-mainnet'', chain_symbol = ''AVAX'', chain_decimals = 18\<rparr>)]"

definition explorers :: "(int \<times> string) list" where
  "explorers =
     [(1, ''https://etherscan.io''),
      (56, ''https://bscscan.com''),
      (137, ''https://polygonscan.com''),
      (10, ''https://optimistic.etherscan.io''),
      (42161, ''https://arbiscan.io''),
      (8453, ''https://basescan.org''),
      (43114, ''https://snowtrace.io'')]"

text \<open>\<open>explorers[chainId] || 'https://etherscan.io'\<close>: a missing or empty entry falls back.\<close>

definition getExplorerUrl :: "int \<Rightarrow> string" where
  "getExplorerUrl chainId =
     (case map_of explorers chainId of
        None \<Rightarrow> ''https://etherscan.io''
      | Some url \<Rightarrow> if url \<noteq> [] then url else ''https://etherscan.io'')"

text \<open>The provider is identified by its RPC URL.\<close>

definition getProvider :: "config \<Rightarrow> int \<Rightarrow> js_error + string" where
  "getProvider cfg chainId =
     (case CHAINS chainId of
        None \<Rightarrow> Inl (JsError Error ''Unsupported chain'')
      | Some chain \<Rightarrow>
          Inr (''https://'' @ chain_rpc chain @ ''.g.alchemy.com/v2/'' @ ALCHEMY_KEY cfg))"

section \<open>The registry's card and the outside world\<close>

text \<open>
  A card as the registry API returns it (spec, section 3): the fields the server branches
  on are typed, the display fields are passed through as JSON.
\<close>

record card =
  card_cardId :: js_value
  card_slotId :: js_value
  card_chainId :: int
  card_active :: bool
  card_status :: js_value
  card_tokenAddress :: string
  card_tokenAmount :: js_value
  card_creator :: js_value
  card_message :: js_value
  card_encryptedPrivateKey :: string
  card_createdAt :: js_value

text \<open>
  The result of \<open>fetch\<close>. \<open>resp_json\<close> is what \<open>await response.json()\<close> and the reads of
  the card's fields give: the card, or the exception of a body that is not JSON or holds
  no card.
\<close>

record http_response =
  resp_ok :: bool
  resp_status :: nat
  resp_json :: "js_error + card"

record contract =
  contract_address :: string
  contract_signer :: string
  contract_provider :: string

text \<open>The arguments of the contract's \<open>redeemCard(cardId, to, signature, partner)\<close>.\<close>

record redeem_args =
  arg_cardId :: js_value
  arg_to :: js_value
  arg_signature :: string
  arg_partner :: string

record overrides =
  gasLimit :: nat
  gasPrice :: nat

record receipt =
  transactionHash :: string

record token_info =
  ti_symbol :: string
  ti_decimals :: nat

text \<open>Every network call of a request, in order, with what it returned.\<close>

datatype event =
    Fetch string "js_error + http_response"
  | EstimateGas contract redeem_args "js_error + nat"
  | GetGasPrice string "js_error + nat"
  | SendTransaction contract redeem_args overrides "js_error + string"
  | Wait string "js_error + receipt"
  | Erc20Symbol string string "js_error + string"
  | Erc20Decimals string string "js_error + nat"

text \<open>
  The network: the registry API and the chains' JSON-RPC. Each call reads and may change
  the state \<open>'w\<close> of the outside world.
\<close>

record 'w network =
  fetch :: "string \<Rightarrow> 'w \<Rightarrow> (js_error + http_response) \<times> 'w"
  estimateGas_redeemCard :: "contract \<Rightarrow> redeem_args \<Rightarrow> 'w \<Rightarrow> (js_error + nat) \<times> 'w"
  getGasPrice :: "string \<Rightarrow> 'w \<Rightarrow> (js_error + nat) \<times> 'w"
  send_redeemCard ::
    "contract \<Rightarrow> redeem_args \<Rightarrow> overrides \<Rightarrow> 'w \<Rightarrow> (js_error + string) \<times> 'w"
  tx_wait :: "string \<Rightarrow> 'w \<Rightarrow> (js_error + receipt) \<times> 'w"
  erc20_symbol :: "string \<Rightarrow> string \<Rightarrow> 'w \<Rightarrow> (js_error + string) \<times> 'w"
  erc20_decimals :: "string \<Rightarrow> string \<Rightarrow> 'w \<Rightarrow> (js_error + nat) \<times> 'w"

text \<open>The local functions of ethers.js the handlers call; a wallet is named by a string.\<close>

record ethers =
  isAddress :: "js_value \<Rightarrow> bool"
  new_Wallet :: "string \<Rightarrow> js_error + string"
  solidityKeccak256 :: "string list \<Rightarrow> js_value list \<Rightarrow> js_error + string"
  arrayify :: "string \<Rightarrow> js_error + byte list"
  signMessage :: "string \<Rightarrow> byte list \<Rightarrow> js_error + string"
  formatUnits :: "js_value \<Rightarrow> nat \<Rightarrow> js_error + string"

text \<open>JavaScript's doubles, of type \<open>'f\<close>, are not interpreted.\<close>

record 'f numbers =
  parseFloat :: "string \<Rightarrow> 'f"
  is_whole :: "'f \<Rightarrow> bool"
  number_toString :: "'f \<Rightarrow> string"
  toFixed :: "'f \<Rightarrow> nat \<Rightarrow> string"

record 'w state =
  world :: 'w
  trace :: "event list"

type_synonym ('w, 'a) io = "'w state \<Rightarrow> (js_error + 'a) \<times> 'w state"

definition io_return :: "'a \<Rightarrow> ('w, 'a) io" where
  "io_return a = (\<lambda>s. (Inr a, s))"

definition io_lift :: "js_error + 'a \<Rightarrow> ('w, 'a) io" where
  "io_lift r = (\<lambda>s. (r, s))"

definition io_bind :: "('w, 'a) io \<Rightarrow> ('a \<Rightarrow> ('w, 'b) io) \<Rightarrow> ('w, 'b) io" where
  "io_bind m f = (\<lambda>s. case m s of (Inl e, s') \<Rightarrow> (Inl e, s') | (Inr a, s') \<Rightarrow> f a s')"

definition io_catch :: "('w, 'a) io \<Rightarrow> (js_error \<Rightarrow> ('w, 'a) io) \<Rightarrow> ('w, 'a) io" where
  "io_catch m h = (\<lambda>s. case m s of (Inl e, s') \<Rightarrow> h e s' | (Inr a, s') \<Rightarrow> (Inr a, s'))"

text \<open>A network call: the world answers and moves on, the call is appended to the trace.\<close>

definition io_call ::
  "(js_error + 'a \<Rightarrow> event) \<Rightarrow> ('w \<Rightarrow> (js_error + 'a) \<times> 'w) \<Rightarrow> ('w, 'a) io" where
  "io_call ev op =
     (\<lambda>s. case op (world s) of (r, w') \<Rightarrow> (r, \<lparr>world = w', trace = trace s @ [ev r]\<rparr>))"


section \<open>Strings\<close>

text \<open>Decimal notation: the digits are collected from the least significant one.\<close>

definition digit_char :: "nat \<Rightarrow> char" where
  "digit_char d = ''0123456789'' ! d"

fun decimal :: "nat \<Rightarrow> string \<Rightarrow> string" where
  "decimal n acc =
     (if 10 \<le> n then decimal (n div 10) (digit_char (n mod 10) # acc)
      else digit_char n # acc)"

definition number_text :: "int \<Rightarrow> string" where
  "number_text i =
     (if 0 \<le> i then decimal (nat i) [] else CHR ''-'' # decimal (nat (- i)) [])"

fun join_comma :: "string list \<Rightarrow> string" where
  "join_comma [] = []"
| "join_comma [s] = s"
| "join_comma (s # t # ss) = s @ '','' @ join_comma (t # ss)"

text \<open>
  The string a template literal \<open>`${v}`\<close> inserts for a JSON value. An integer is printed
  in decimal notation, which is what JavaScript prints for an integer a double holds
  exactly (magnitude up to \<open>2^53\<close>); a larger number, which JavaScript rounds and from
  \<open>1e21\<close> on prints with an exponent, and a fractional number are not modelled. The string
  is used only for the card id in the URL of the registry lookup.
\<close>

fun to_string :: "js_value \<Rightarrow> string" where
  "to_string Undefined = ''undefined''"
| "to_string Null = ''null''"
| "to_string (Bool b) = (if b then ''true'' else ''false'')"
| "to_string (Num n) = number_text n"
| "to_string (Str s) = s"
| "to_string (Arr xs) =
     join_comma (map (\<lambda>x. if x = Undefined \<or> x = Null then [] else to_string x) xs)"
| "to_string (Obj kvs) = ''[object Object]''"

text \<open>\<open>s.includes(p)\<close>: \<open>p\<close> occurs in \<open>s\<close> as a contiguous substring.\<close>

fun includes_str :: "string \<Rightarrow> string \<Rightarrow> bool" where
  "includes_str [] p = (p = [])"
| "includes_str (c # cs) p = (prefix p (c # cs) \<or> includes_str cs p)"

text \<open>
  \<open>s.replace(/\.?0+$/, '')\<close>: the trailing run of zeros is removed, with the dot
  before it when there is one; a string that does not end in a zero is unchanged.
\<close>

definition strip_trailing_zeros :: "string \<Rightarrow> string" where
  "strip_trailing_zeros s =
     (let r = rev s; rest = dropWhile (\<lambda>c. c = CHR ''0'') r
      in if takeWhile (\<lambda>c. c = CHR ''0'') r = [] then s
         else rev (case rest of [] \<Rightarrow> [] | c # cs \<Rightarrow> if c = CHR ''.'' then cs else rest))"

section \<open>Token amounts and gas price\<close>

definition formatTokenAmount ::
  "ethers \<Rightarrow> 'f numbers \<Rightarrow> js_value \<Rightarrow> nat \<Rightarrow> js_error + string" where
  "formatTokenAmount eth nf amount decimals =
     and_then (formatUnits eth amount decimals) (\<lambda>units.
       let formatted = parseFloat nf units
       in Inr (if is_whole nf formatted then number_toString nf formatted
               else strip_trailing_zeros (toFixed nf formatted 6)))"

text \<open>
  \<open>getTokenInfo\<close>: the native asset reads the chain table; for a token both contract
  reads are issued (\<open>Promise.all\<close>) and any failure gives the default.
\<close>

definition getTokenInfo ::
  "'w network \<Rightarrow> string \<Rightarrow> int \<Rightarrow> string \<Rightarrow> ('w, token_info) io" where
  "getTokenInfo nw tokenAddress chainId provider =
     (if tokenAddress = ''0x0000000000000000000000000000000000000000''
      then (case CHAINS chainId of
              None \<Rightarrow> io_lift (Inl (JsError TypeError ''Cannot read properties of undefined''))
            | Some chain \<Rightarrow>
                io_return \<lparr>ti_symbol = chain_symbol chain, ti_decimals = chain_decimals chain\<rparr>)
      else
        io_catch
          (\<lambda>s. case io_call (Erc20Symbol provider tokenAddress)
                       (erc20_symbol nw provider tokenAddress) s of
                  (symbol, s1) \<Rightarrow>
                    (case io_call (Erc20Decimals provider tokenAddress)
                            (erc20_decimals nw provider tokenAddress) s1 of
                       (decimals, s2) \<Rightarrow>
                         (and_then symbol (\<lambda>symbol. and_then decimals (\<lambda>decimals.
                            Inr \<lparr>ti_symbol = symbol, ti_decimals = decimals\<rparr>)), s2)))
          (\<lambda>error. io_return \<lparr>ti_symbol = ''TOKEN'', ti_decimals = 18\<rparr>))"

text \<open>\<open>getOptimalGasPrice\<close>: when the first query throws, the same query is issued again.\<close>

definition getOptimalGasPrice :: "'w network \<Rightarrow> int \<Rightarrow> string \<Rightarrow> ('w, nat) io" where
  "getOptimalGasPrice nw chainId provider =
     io_catch (io_call (GetGasPrice provider) (getGasPrice nw provider))
       (\<lambda>error. io_call (GetGasPrice provider) (getGasPrice nw provider))"

section \<open>Request handlers\<close>

record reply =
  reply_status :: nat
  reply_body :: js_value

text \<open>\<open>res.status(code).json({error: msg})\<close> and \<open>res.json(obj)\<close>.\<close>

definition error_reply :: "nat \<Rightarrow> string \<Rightarrow> reply" where
  "error_reply code msg = \<lparr>reply_status = code, reply_body = Obj [(''error'', Str msg)]\<rparr>"

definition json_reply :: "js_value \<Rightarrow> reply" where
  "json_reply obj = \<lparr>reply_status = 200, reply_body = obj\<rparr>"

definition card_url :: "js_value \<Rightarrow> string" where
  "card_url cardId = ''https://api.univoucher.com/v1/cards/single?id='' @ to_string cardId"

text \<open>A handler runs its \<open>try\<close> block; the \<open>catch\<close> turns an exception into a reply.\<close>

definition handle ::
  "('w, reply) io \<Rightarrow> (js_error \<Rightarrow> reply) \<Rightarrow> 'w state \<Rightarrow> reply \<times> 'w state" where
  "handle body on_error s =
     (case body s of (Inl error, s') \<Rightarrow> (on_error error, s') | (Inr r, s') \<Rightarrow> (r, s'))"

subsection \<open>POST /api/card-info\<close>

definition card_info_try ::
  "config \<Rightarrow> ethers \<Rightarrow> 'f numbers \<Rightarrow> 'w network \<Rightarrow> js_value \<Rightarrow> ('w, reply) io" where
  "card_info_try cfg eth nf nw body =
     io_bind (io_lift (get_prop body ''cardId'')) (\<lambda>cardId.
     if \<not> truthy cardId then io_return (error_reply 400 ''Card ID required'')
     else
       io_bind (io_call (Fetch (card_url cardId)) (fetch nw (card_url cardId))) (\<lambda>response.
       if \<not> resp_ok response then
         (if resp_status response = 404 then io_return (error_reply 404 ''Card not found'')
          else io_lift (Inl (JsError Error
                 (''API error: '' @ decimal (resp_status response) []))))
       else
         io_bind (io_lift (resp_json response)) (\<lambda>card.
         io_bind (io_lift (getProvider cfg (card_chainId card))) (\<lambda>provider.
         io_bind (getTokenInfo nw (card_tokenAddress card) (card_chainId card) provider)
           (\<lambda>tokenInfo.
         io_bind (io_lift (formatTokenAmount eth nf (card_tokenAmount card)
                    (ti_decimals tokenInfo))) (\<lambda>amount.
         io_return (json_reply (Obj
           [(''cardId'', card_cardId card),
            (''slotId'', card_slotId card),
            (''chainId'', Num (card_chainId card)),
            (''chainName'', Str (case CHAINS (card_chainId card) of
                                   None \<Rightarrow> ''Unknown''
                                 | Some chain \<Rightarrow> if chain_name chain \<noteq> []
                                     then chain_name chain else ''Unknown'')),
            (''active'', Bool (card_active card)),
            (''status'', card_status card),
            (''tokenAddress'', Str (card_tokenAddress card)),
            (''tokenAmount'', card_tokenAmount card),
            (''formattedAmount'', Str (amount @ '' '' @ ti_symbol tokenInfo)),
            (''creator'', card_creator card),
            (''message'', if truthy (card_message card) then card_message card else Str []),
            (''encryptedPrivateKey'', Str (card_encryptedPrivateKey card)),
            (''createdAt'', card_createdAt card)]))))))))"

definition card_info ::
  "config \<Rightarrow> ethers \<Rightarrow> 'f numbers \<Rightarrow> 'w network \<Rightarrow> js_value \<Rightarrow> 'w state
     \<Rightarrow> reply \<times> 'w state" where
  "card_info cfg eth nf nw body =
     handle (card_info_try cfg eth nf nw body)
       (\<lambda>error. error_reply 500 ''Failed to get card information'')"

subsection \<open>POST /api/verify-secret\<close>

definition verify_secret_try ::
  "'d node_crypto \<Rightarrow> 'w network \<Rightarrow> js_value \<Rightarrow> ('w, reply) io" where
  "verify_secret_try nc nw body =
     io_bind (io_lift (get_prop body ''cardId'')) (\<lambda>cardId.
     io_bind (io_lift (get_prop body ''cardSecret'')) (\<lambda>cardSecret.
     if \<not> truthy cardId \<or> \<not> truthy cardSecret
     then io_return (error_reply 400 ''Card ID and secret required'')
     else
       io_bind (io_call (Fetch (card_url cardId)) (fetch nw (card_url cardId))) (\<lambda>response.
       if \<not> resp_ok response then io_return (error_reply 404 ''Card not found'')
       else
         io_bind (io_lift (resp_json response)) (\<lambda>card.
         if \<not> card_active card
         then io_return (error_reply 400 ''This card has already been redeemed or cancelled'')
         else
           io_catch
             (io_bind (io_lift (decryptPrivateKey nc (card_encryptedPrivateKey card) cardSecret))
                (\<lambda>privateKey. io_return (json_reply (Obj [(''valid'', Bool True)]))))
             (\<lambda>error. io_return (error_reply 400 ''Invalid card secret''))))))"

definition verify_secret ::
  "'d node_crypto \<Rightarrow> 'w network \<Rightarrow> js_value \<Rightarrow> 'w state \<Rightarrow> reply \<times> 'w state" where
  "verify_secret nc nw body =
     handle (verify_secret_try nc nw body)
       (\<lambda>error. error_reply 500 ''Failed to verify card secret'')"

subsection \<open>POST /api/redeem\<close>

definition redeem_try ::
  "config \<Rightarrow> 'd node_crypto \<Rightarrow> ethers \<Rightarrow> 'f numbers \<Rightarrow> 'w network \<Rightarrow> js_value
     \<Rightarrow> ('w, reply) io" where
  "redeem_try cfg nc eth nf nw body =
     io_bind (io_lift (get_prop body ''cardId'')) (\<lambda>cardId.
     io_bind (io_lift (get_prop body ''cardSecret'')) (\<lambda>cardSecret.
     io_bind (io_lift (get_prop body ''recipientAddress'')) (\<lambda>recipientAddress.
     if \<not> truthy cardId \<or> \<not> truthy cardSecret \<or> \<not> truthy recipientAddress
     then io_return (error_reply 400 ''Card ID, secret, and recipient address required'')
     else if \<not> isAddress eth recipientAddress
     then io_return (error_reply 400 ''Invalid recipient address'')
     else
       io_bind (io_call (Fetch (card_url cardId)) (fetch nw (card_url cardId))) (\<lambda>response.
       if \<not> resp_ok response then io_return (error_reply 404 ''Card not found'')
       else
         io_bind (io_lift (resp_json response)) (\<lambda>card.
         if \<not> card_active card
         then io_return (error_reply 400 ''This card has already been redeemed or cancelled'')
         else
           io_bind (io_lift (decryptPrivateKey nc (card_encryptedPrivateKey card) cardSecret))
             (\<lambda>privateKey.
           io_bind (io_lift (new_Wallet eth privateKey)) (\<lambda>cardWallet.
           io_bind (io_lift (solidityKeccak256 eth
                      [''string'', ''string'', ''string'', ''address'']
                      [Str ''Redeem card:'', cardId, Str ''to:'', recipientAddress]))
             (\<lambda>messageHash.
           io_bind (io_lift (arrayify eth messageHash)) (\<lambda>arrayifiedHash.
           io_bind (io_lift (signMessage eth cardWallet arrayifiedHash)) (\<lambda>signature.
           io_bind (io_lift (getProvider cfg (card_chainId card))) (\<lambda>provider.
           io_bind (io_lift (new_Wallet eth (SERVICE_PRIVATE_KEY cfg))) (\<lambda>serviceWallet.
           let contract = \<lparr>contract_address = UNIVOUCHER_ADDRESS,
                            contract_signer = serviceWallet,
                            contract_provider = provider\<rparr>;
               args = \<lparr>arg_cardId = cardId, arg_to = recipientAddress,
                        arg_signature = signature, arg_partner = AddressZero\<rparr>
           in
           io_bind (io_call (EstimateGas contract args)
                      (estimateGas_redeemCard nw contract args)) (\<lambda>gasEstimate.
           let gasLimit = gasEstimate * 120 div 100 in
           io_bind (getOptimalGasPrice nw (card_chainId card) provider) (\<lambda>gasPriceData.
           let opts = \<lparr>gasLimit = gasLimit, gasPrice = gasPriceData\<rparr> in
           io_bind (io_call (SendTransaction contract args opts)
                      (send_redeemCard nw contract args opts)) (\<lambda>tx.
           io_bind (io_call (Wait tx) (tx_wait nw tx)) (\<lambda>receipt.
           io_bind (getTokenInfo nw (card_tokenAddress card) (card_chainId card) provider)
             (\<lambda>tokenInfo.
           io_bind (io_lift (formatTokenAmount eth nf (card_tokenAmount card)
                      (ti_decimals tokenInfo))) (\<lambda>amount.
           io_return (json_reply (Obj
             [(''success'', Bool True),
              (''txHash'', Str (transactionHash receipt)),
              (''recipientAddress'', recipientAddress),
              (''partnerAddress'', Null),
              (''amount'', Str (amount @ '' '' @ ti_symbol tokenInfo)),
              (''explorerUrl'', Str (getExplorerUrl (card_chainId card) @ ''/tx/''
                                      @ transactionHash receipt))]))))))))))))))))))))"

definition redeem_catch :: "js_error \<Rightarrow> reply" where
  "redeem_catch error =
     (if includes_str (message error) ''This card has already been redeemed or cancelled''
      then error_reply 400 ''Card has already been redeemed or cancelled''
      else if includes_str (message error) ''Invalid card secret''
      then error_reply 400 ''Invalid card secret''
      else error_reply 500 ''Failed to redeem card'')"

definition redeem ::
  "config \<Rightarrow> 'd node_crypto \<Rightarrow> ethers \<Rightarrow> 'f numbers \<Rightarrow> 'w network \<Rightarrow> js_value
     \<Rightarrow> 'w state \<Rightarrow> reply \<times> 'w state" where
  "redeem cfg nc eth nf nw body = handle (redeem_try cfg nc eth nf nw body) redeem_catch"


section \<open>Runs of a handler\<close>

text \<open>A request starts in some state of the world, with no network call made yet.\<close>

definition start :: "'w \<Rightarrow> 'w state" where
  "start w = \<lparr>world = w, trace = []\<rparr>"

text \<open>A field of the request body, \<open>undefined\<close> when it cannot be read.\<close>

definition body_field :: "js_value \<Rightarrow> string \<Rightarrow> js_value" where
  "body_field body k = (case get_prop body k of Inl e \<Rightarrow> Undefined | Inr v \<Rightarrow> v)"

text \<open>
  The card a run obtained from the registry: its first network call is the fetch, which
  answered with a success status and a body that parsed.
\<close>

fun fetched_card :: "event list \<Rightarrow> card option" where
  "fetched_card (Fetch url (Inr response) # es) =
     (if resp_ok response
      then (case resp_json response of Inl e \<Rightarrow> None | Inr c \<Rightarrow> Some c)
      else None)"
| "fetched_card es = None"

text \<open>
  The redemption authorization in the spec's words (section 4.3): the personal-message
  signature, by the wallet of the card's private key, of the hash of
  \<open>("Redeem card:", cardId, "to:", recipientAddress)\<close> with the types
  \<open>(string, string, string, address)\<close>.
\<close>

definition redemption_authorization ::
  "ethers \<Rightarrow> string \<Rightarrow> js_value \<Rightarrow> js_value \<Rightarrow> js_error + string" where
  "redemption_authorization eth privateKey cardId recipientAddress =
     and_then (new_Wallet eth privateKey) (\<lambda>wallet.
     and_then (solidityKeccak256 eth [''string'', ''string'', ''string'', ''address'']
                 [Str ''Redeem card:'', cardId, Str ''to:'', recipientAddress]) (\<lambda>hash.
     and_then (arrayify eth hash) (\<lambda>bytes.
     signMessage eth wallet bytes)))"

text \<open>
  \<open>after m s Q\<close>: the postcondition \<open>Q\<close> holds of the result and the state in which
  \<open>m\<close>, run from \<open>s\<close>, ends.
\<close>

definition after ::
  "('w, 'a) io \<Rightarrow> 'w state \<Rightarrow> (js_error + 'a \<Rightarrow> 'w state \<Rightarrow> bool) \<Rightarrow> bool" where
  "after m s Q = (case m s of (r, s') \<Rightarrow> Q r s')"

section \<open>A small concrete instance\<close>

text \<open>
  Stand-ins for the libraries and the network, on which the model can be run: the key
  derivation recognises one password, the cipher authenticates one key, the registry
  answers with the status and the card held in the world state.
\<close>

definition toy_crypto :: "(byte list) node_crypto" where
  "toy_crypto =
     \<lparr>JSON_parse = (\<lambda>s.
        if s = ''E1'' then Inr (Obj [(''salt'', Str ''00''), (''iv'', Str ''01''),
                                     (''ciphertext'', Str ''AAAAAAAAAAAAAAAAAAAAAAAA'')])
        else if s = ''E0'' then Inr (Obj [(''salt'', Str ''00''), (''iv'', Str ''01''),
                                          (''ciphertext'', Str ''AAAA'')])
        else Inl (JsError SyntaxError ''Unexpected token'')),
      Buffer_from = (\<lambda>v enc. case v of
          Str s \<Rightarrow> Inr (replicate (length s) 7)
        | _ \<Rightarrow> Inl (JsError TypeError ''The first argument must be of type string'')),
      pbkdf2Sync = (\<lambda>password salt iterations keylen digest.
        Inr (if password = ''AAAAABBBBBCCCCCDDDDD'' \<and> iterations = 310000 \<and> keylen = 32
                \<and> digest = ''sha256'' then [1] else [0])),
      createDecipheriv = (\<lambda>algorithm key iv.
        if algorithm = ''aes-256-gcm'' then Inr key
        else Inl (JsError Error ''Unknown cipher'')),
      setAuthTag = (\<lambda>decipher tag.
        if length tag = 16 then Inr decipher
        else Inl (JsError TypeError ''Invalid authentication tag length'')),
      decipher_update = (\<lambda>decipher content. Inr (content, decipher)),
      decipher_final = (\<lambda>decipher.
        if decipher = [1] then Inr []
        else Inl (JsError Error ''Unsupported state or unable to authenticate data'')),
      toString_utf8 = (\<lambda>bytes. replicate (length bytes) (CHR ''k''))\<rparr>"

text \<open>
  The same library with the key derivation recognising the password \<open>pw\<close>: decryption
  succeeds exactly when that password reaches \<open>pbkdf2Sync\<close>.
\<close>

definition password_crypto :: "string \<Rightarrow> (byte list) node_crypto" where
  "password_crypto pw =
     toy_crypto\<lparr>pbkdf2Sync := (\<lambda>password salt iterations keylen digest.
        Inr (if password = pw then [1] else [0]))\<rparr>"

text \<open>
  A library whose cipher authenticates the envelope under two keys, derived from two
  passwords, and decrypts it to a different plaintext under each.
\<close>

definition two_key_crypto :: "(byte list) node_crypto" where
  "two_key_crypto =
     toy_crypto\<lparr>
       pbkdf2Sync := (\<lambda>password salt iterations keylen digest.
         Inr (if password = ''AAAAABBBBBCCCCCDDDDD'' then [1]
              else if password = ''BBBBBAAAAADDDDDCCCCC'' then [2] else [0])),
       decipher_update := (\<lambda>decipher content.
         Inr (if decipher = [1] then content else [], decipher)),
       decipher_final := (\<lambda>decipher.
         if decipher = [1] \<or> decipher = [2] then Inr []
         else Inl (JsError Error ''Unsupported state or unable to authenticate data''))\<rparr>"

definition toy_ethers :: ethers where
  "toy_ethers =
     \<lparr>isAddress = (\<lambda>v. case v of Str s \<Rightarrow> length s = 42 \<and> take 2 s = ''0x'' | _ \<Rightarrow> False),
      new_Wallet = (\<lambda>key. if key = [] then Inl (JsError Error ''invalid private key'')
                           else Inr (''wallet:'' @ key)),
      solidityKeccak256 = (\<lambda>types values. Inr (''hash:'' @ concat (map to_string values))),
      arrayify = (\<lambda>h. Inr (replicate (length h) 3)),
      signMessage = (\<lambda>wallet bytes. Inr (''sig:'' @ wallet)),
      formatUnits = (\<lambda>amount decimals. Inr ''1.0'')\<rparr>"

definition toy_numbers :: "string numbers" where
  "toy_numbers =
     \<lparr>parseFloat = (\<lambda>s. s),
      is_whole = (\<lambda>f. True),
      number_toString = (\<lambda>f. ''1''),
      toFixed = (\<lambda>f digits. f)\<rparr>"

record toy_world =
  registry_status :: nat
  registry_card :: card

definition toy_network :: "toy_world network" where
  "toy_network =
     \<lparr>fetch = (\<lambda>url w.
        (Inr \<lparr>resp_ok = (200 \<le> registry_status w \<and> registry_status w < 300),
              resp_status = registry_status w,
              resp_json = Inr (registry_card w)\<rparr>, w)),
      estimateGas_redeemCard = (\<lambda>contract args w. (Inr 100001, w)),
      getGasPrice = (\<lambda>provider w. (Inr 5, w)),
      send_redeemCard = (\<lambda>contract args opts w.
        (Inr ''0xabc'', w\<lparr>registry_card := (registry_card w)\<lparr>card_active := False\<rparr>\<rparr>)),
      tx_wait = (\<lambda>tx w. (Inr \<lparr>transactionHash = tx\<rparr>, w)),
      erc20_symbol = (\<lambda>provider token w. (Inr ''TOK'', w)),
      erc20_decimals = (\<lambda>provider token w. (Inr 6, w))\<rparr>"

definition toy_card :: card where
  "toy_card =
     \<lparr>card_cardId = Str ''1234567'',
      card_slotId = Str ''0x01'',
      card_chainId = 1,
      card_active = True,
      card_status = Str ''active'',
      card_tokenAddress = ''0x0000000000000000000000000000000000000000'',
      card_tokenAmount = Str ''1000000000000000000'',
      card_creator = Str ''0x02'',
      card_message = Str ''Happy Birthday!'',
      card_encryptedPrivateKey = ''E1'',
      card_createdAt = Str ''2025-01-01T00:00:00.000Z''\<rparr>"

definition toy_config :: config where
  "toy_config =
     \<lparr>ALCHEMY_KEY = ''alchemy'',
      PARTNER_ADDRESS = ''0x00000000000000000000000000000000000000bb'',
      SERVICE_PRIVATE_KEY = ''service''\<rparr>"

text \<open>The world at the start of a request: the registry's status and card, no call made.\<close>

definition toy_start :: "nat \<Rightarrow> card \<Rightarrow> toy_world state" where
  "toy_start st c = start \<lparr>registry_status = st, registry_card = c\<rparr>"

definition toy_request :: "string \<Rightarrow> string \<Rightarrow> js_value" where
  "toy_request secret recipient =
     Obj [(''cardId'', Str ''1234567''), (''cardSecret'', Str secret),
          (''recipientAddress'', Str recipient)]"


section \<open>Shapes of replies and of the redemption call\<close>

text \<open>
  The arguments of a \<open>redeemCard\<close> call are authorized by the card of a run: they
  name the request's card id and recipient, and the signature is the redemption
  authorization under the private key decrypted from the envelope of the fetched card with
  the request's secret.
\<close>

definition authorized_by_card ::
  "'d node_crypto \<Rightarrow> ethers \<Rightarrow> js_value \<Rightarrow> event list \<Rightarrow> redeem_args \<Rightarrow> bool" where
  "authorized_by_card nc eth body tr a =
     (case fetched_card tr of
        None \<Rightarrow> False
      | Some c \<Rightarrow>
          arg_cardId a = body_field body ''cardId'' \<and>
          arg_to a = body_field body ''recipientAddress'' \<and>
          (\<exists>privateKey.
             decryptPrivateKey nc (card_encryptedPrivateKey c) (body_field body ''cardSecret'')
               = Inr privateKey \<and>
             redemption_authorization eth privateKey (arg_cardId a) (arg_to a)
               = Inr (arg_signature a)))"








text \<open>A redemption on the concrete instance, and what it is expected to do.\<close>

definition toy_recipient :: string where
  "toy_recipient = ''0x00000000000000000000000000000000000000aa''"

definition toy_good_request :: js_value where
  "toy_good_request = toy_request ''AAAAA-BBBBB-CCCCC-DDDDD'' toy_recipient"

definition toy_inactive_card :: card where
  "toy_inactive_card = toy_card\<lparr>card_active := False\<rparr>"

definition toy_response :: "card \<Rightarrow> http_response" where
  "toy_response c = \<lparr>resp_ok = True, resp_status = 200, resp_json = Inr c\<rparr>"

definition toy_provider :: string where
  "toy_provider = ''https://eth-mainnet.g.alchemy.com/v2/alchemy''"

definition toy_contract :: contract where
  "toy_contract =
     \<lparr>contract_address = ''0x51553818203e38ce0E78e4dA05C07ac779ec5b58'',
      contract_signer = ''wallet:service'',
      contract_provider = toy_provider\<rparr>"

definition toy_args :: redeem_args where
  "toy_args =
     \<lparr>arg_cardId = Str ''1234567'',
      arg_to = Str toy_recipient,
      arg_signature = ''sig:wallet:kkkkkkkk'',
      arg_partner = ''0x0000000000000000000000000000000000000000''\<rparr>"

definition toy_url :: string where
  "toy_url = ''https://api.univoucher.com/v1/cards/single?id=1234567''"

definition toy_trace :: "event list" where
  "toy_trace =
     [Fetch toy_url (Inr (toy_response toy_card)),
      EstimateGas toy_contract toy_args (Inr 100001),
      GetGasPrice toy_provider (Inr 5),
      SendTransaction toy_contract toy_args \<lparr>gasLimit = 120001, gasPrice = 5\<rparr> (Inr ''0xabc''),
      Wait ''0xabc'' (Inr \<lparr>transactionHash = ''0xabc''\<rparr>)]"

definition toy_success :: reply where
  "toy_success =
     \<lparr>reply_status = 200,
      reply_body = Obj [(''success'', Bool True),
                        (''txHash'', Str ''0xabc''),
                        (''recipientAddress'', Str toy_recipient),
                        (''partnerAddress'', Null),
                        (''amount'', Str ''1 ETH''),
                        (''explorerUrl'', Str ''https://etherscan.io/tx/0xabc'')]\<rparr>"

definition toy_end :: "toy_world state" where
  "toy_end = \<lparr>world = \<lparr>registry_status = 200, registry_card = toy_inactive_card\<rparr>,
              trace = toy_trace\<rparr>"

section \<open>Properties of decryptPrivateKey\<close>

lemma and_then_Inr: "and_then (Inr a) f = f a"
  by (simp add: and_then_def)

lemma and_then_Inl: "and_then (Inl e) f = Inl e"
  by (simp add: and_then_def)

lemma slice_tag: "16 \<le> length ct \<Longrightarrow> slice_from ct (- 16) = drop (length ct - 16) ct"
  by (auto simp: slice_from_def slice_def clamp_index_def Let_def nat_diff_distrib)

lemma slice_content: "16 \<le> length ct \<Longrightarrow> slice ct 0 (- 16) = take (length ct - 16) ct"
  by (auto simp: slice_def clamp_index_def Let_def nat_diff_distrib)

lemma decrypt_cases:
  "decryptPrivateKey nc enc secret =
     (case decryptPrivateKey_try nc enc secret of
        Inl e \<Rightarrow> Inl (JsError Error ''Invalid card secret'') | Inr p \<Rightarrow> Inr p)"
  by (simp add: decryptPrivateKey_def Invalid_card_secret_def split: sum.split)

lemma decrypt_try_json_fails:
  "JSON_parse nc enc = Inl e \<Longrightarrow> decryptPrivateKey_try nc enc secret = Inl e"
  by (simp add: decryptPrivateKey_try_def and_then_Inl)

lemma decrypt_try_short:
  assumes "JSON_parse nc enc = Inr data" "get_prop data ''ciphertext'' = Inr cf"
    "Buffer_from nc cf ''base64'' = Inr ct" "length ct < 16"
  shows "\<exists>e. decryptPrivateKey_try nc enc secret = Inl e"
  using assms unfolding decryptPrivateKey_try_def and_then_def authTagLength_def
  by (auto split: sum.splits)

lemma decrypt_try_bad_field:
  assumes "JSON_parse nc enc = Inr data" "get_prop data k = Inr f"
    "Buffer_from nc f encoding = Inl e"
    "(k, encoding) \<in> {(''salt'', ''hex''), (''iv'', ''hex''), (''ciphertext'', ''base64'')}"
  shows "\<exists>e. decryptPrivateKey_try nc enc secret = Inl e"
  using assms unfolding decryptPrivateKey_try_def and_then_def authTagLength_def
  by (auto split: sum.splits)

lemma decrypt_try_final_fails:
  assumes "JSON_parse nc enc = Inr data"
    "get_prop data ''salt'' = Inr sf" "Buffer_from nc sf ''hex'' = Inr salt"
    "get_prop data ''iv'' = Inr ivf" "Buffer_from nc ivf ''hex'' = Inr iv"
    "get_prop data ''ciphertext'' = Inr cf" "Buffer_from nc cf ''base64'' = Inr ct"
    "pbkdf2Sync nc (replace_hyphens secret) salt 310000 32 ''sha256'' = Inr key"
    "16 \<le> length ct"
    "createDecipheriv nc ''aes-256-gcm'' key iv = Inr d0"
    "setAuthTag nc d0 (drop (length ct - 16) ct) = Inr d1"
    "decipher_update nc d1 (take (length ct - 16) ct) = Inr (partial, d2)"
    "decipher_final nc d2 = Inl e"
  shows "decryptPrivateKey_try nc enc (Str secret) = Inl e"
  using assms unfolding decryptPrivateKey_try_def authTagLength_def Let_def
  by (simp add: and_then_Inr and_then_Inl slice_tag slice_content)

lemma decrypt_try_success:
  "decryptPrivateKey_try nc enc (Str secret) = Inr p \<longleftrightarrow>
     (\<exists>data sf salt ivf iv cf ct key d0 d1 upd d2 fin.
        JSON_parse nc enc = Inr data \<and>
        get_prop data ''salt'' = Inr sf \<and> Buffer_from nc sf ''hex'' = Inr salt \<and>
        get_prop data ''iv'' = Inr ivf \<and> Buffer_from nc ivf ''hex'' = Inr iv \<and>
        get_prop data ''ciphertext'' = Inr cf \<and> Buffer_from nc cf ''base64'' = Inr ct \<and>
        pbkdf2Sync nc (replace_hyphens secret) salt 310000 32 ''sha256'' = Inr key \<and>
        16 \<le> length ct \<and>
        createDecipheriv nc ''aes-256-gcm'' key iv = Inr d0 \<and>
        setAuthTag nc d0 (drop (length ct - 16) ct) = Inr d1 \<and>
        decipher_update nc d1 (take (length ct - 16) ct) = Inr (upd, d2) \<and>
        decipher_final nc d2 = Inr fin \<and>
        p = toString_utf8 nc (upd @ fin))"
  (is "?L \<longleftrightarrow> ?R")
proof
  assume ?L
  then show ?R
    unfolding decryptPrivateKey_try_def and_then_def authTagLength_def Let_def
    by (auto split: sum.splits if_splits prod.splits simp: slice_tag slice_content)
next
  assume ?R
  then show ?L
    unfolding decryptPrivateKey_try_def authTagLength_def Let_def
    by (auto simp: and_then_Inr slice_tag slice_content)
qed

lemma replace_hyphens_filter: "replace_hyphens s = filter (\<lambda>c. c \<noteq> CHR ''-'') s"
  by (induction s) auto

lemma decrypt_try_normalized:
  "replace_hyphens s1 = replace_hyphens s2 \<Longrightarrow>
   decryptPrivateKey_try nc enc (Str s1) = decryptPrivateKey_try nc enc (Str s2)"
  by (simp add: decryptPrivateKey_try_def)

lemmas toy_crypto_run = decryptPrivateKey_def decryptPrivateKey_try_def and_then_def
  toy_crypto_def authTagLength_def slice_def slice_from_def clamp_index_def
  Invalid_card_secret_def

lemma toy_try_short:
  "decryptPrivateKey_try toy_crypto ''E0'' (Str ''AAAAA-BBBBB-CCCCC-DDDDD'')
     = Inl (JsError Error ''Invalid ciphertext length'')"
  by (simp add: toy_crypto_run)

lemma toy_decrypt_ok:
  "decryptPrivateKey toy_crypto ''E1'' (Str ''AAAAA-BBBBB-CCCCC-DDDDD'') = Inr ''kkkkkkkk''"
  by (simp add: toy_crypto_run)

text \<open>
  C1. Whatever goes wrong in \<open>decryptPrivateKey\<close>, the caller sees the one error
  "Invalid card secret": the result is either that error or the complete plaintext of a
  run in which every step succeeded. Every exception of the body is replaced by it, in
  particular an envelope that is not JSON, a salt, iv or ciphertext field that does not
  decode, a ciphertext shorter than 16 bytes, and a failed tag check in \<open>final\<close>, also
  when \<open>update\<close> had already returned plaintext bytes.
\<close>

theorem decryptPrivateKey_opaque_failure:
  "(decryptPrivateKey nc enc secret = Inl (JsError Error ''Invalid card secret'') \<or>
      (\<exists>p. decryptPrivateKey nc enc secret = Inr p \<and>
           decryptPrivateKey_try nc enc secret = Inr p)) \<and>
   (\<forall>e. decryptPrivateKey_try nc enc secret = Inl e \<longrightarrow>
      decryptPrivateKey nc enc secret = Inl (JsError Error ''Invalid card secret'')) \<and>
   (\<forall>e. JSON_parse nc enc = Inl e \<longrightarrow>
      decryptPrivateKey nc enc secret = Inl (JsError Error ''Invalid card secret'')) \<and>
   (\<forall>data k f encoding e.
      JSON_parse nc enc = Inr data \<longrightarrow> get_prop data k = Inr f \<longrightarrow>
      Buffer_from nc f encoding = Inl e \<longrightarrow>
      (k, encoding) \<in> {(''salt'', ''hex''), (''iv'', ''hex''), (''ciphertext'', ''base64'')} \<longrightarrow>
      decryptPrivateKey nc enc secret = Inl (JsError Error ''Invalid card secret'')) \<and>
   (\<forall>data cf ct.
      JSON_parse nc enc = Inr data \<longrightarrow> get_prop data ''ciphertext'' = Inr cf \<longrightarrow>
      Buffer_from nc cf ''base64'' = Inr ct \<longrightarrow> length ct < 16 \<longrightarrow>
      decryptPrivateKey nc enc secret = Inl (JsError Error ''Invalid card secret'')) \<and>
   (\<forall>s data sf salt ivf iv cf ct key d0 d1 partial d2 e.
      secret = Str s \<longrightarrow> JSON_parse nc enc = Inr data \<longrightarrow>
      get_prop data ''salt'' = Inr sf \<longrightarrow> Buffer_from nc sf ''hex'' = Inr salt \<longrightarrow>
      get_prop data ''iv'' = Inr ivf \<longrightarrow> Buffer_from nc ivf ''hex'' = Inr iv \<longrightarrow>
      get_prop data ''ciphertext'' = Inr cf \<longrightarrow> Buffer_from nc cf ''base64'' = Inr ct \<longrightarrow>
      pbkdf2Sync nc (replace_hyphens s) salt 310000 32 ''sha256'' = Inr key \<longrightarrow>
      16 \<le> length ct \<longrightarrow>
      createDecipheriv nc ''aes-256-gcm'' key iv = Inr d0 \<longrightarrow>
      setAuthTag nc d0 (drop (length ct - 16) ct) = Inr d1 \<longrightarrow>
      decipher_update nc d1 (take (length ct - 16) ct) = Inr (partial, d2) \<longrightarrow>
      decipher_final nc d2 = Inl e \<longrightarrow>
      decryptPrivateKey nc enc secret = Inl (JsError Error ''Invalid card secret''))"
proof (intro conjI allI impI)
  show "decryptPrivateKey nc enc secret = Inl (JsError Error ''Invalid card secret'') \<or>
      (\<exists>p. decryptPrivateKey nc enc secret = Inr p \<and>
           decryptPrivateKey_try nc enc secret = Inr p)"
    by (cases "decryptPrivateKey_try nc enc secret") (simp_all add: decrypt_cases)
next
  fix e assume "decryptPrivateKey_try nc enc secret = Inl e"
  then show "decryptPrivateKey nc enc secret = Inl (JsError Error ''Invalid card secret'')"
    by (simp add: decrypt_cases)
next
  fix e assume "JSON_parse nc enc = Inl e"
  then show "decryptPrivateKey nc enc secret = Inl (JsError Error ''Invalid card secret'')"
    by (simp add: decrypt_cases decrypt_try_json_fails)
next
  fix data k f encoding e
  assume "JSON_parse nc enc = Inr data" "get_prop data k = Inr f"
    "Buffer_from nc f encoding = Inl e"
    "(k, encoding) \<in> {(''salt'', ''hex''), (''iv'', ''hex''), (''ciphertext'', ''base64'')}"
  from decrypt_try_bad_field[OF this, of secret]
  show "decryptPrivateKey nc enc secret = Inl (JsError Error ''Invalid card secret'')"
    by (auto simp: decrypt_cases)
next
  fix data cf ct
  assume "JSON_parse nc enc = Inr data" "get_prop data ''ciphertext'' = Inr cf"
    "Buffer_from nc cf ''base64'' = Inr ct" "length ct < 16"
  from decrypt_try_short[OF this, of secret]
  show "decryptPrivateKey nc enc secret = Inl (JsError Error ''Invalid card secret'')"
    by (auto simp: decrypt_cases)
next
  fix s data sf salt ivf iv cf ct key d0 d1 partial d2 e
  assume s: "secret = Str s"
  assume "JSON_parse nc enc = Inr data"
    "get_prop data ''salt'' = Inr sf" "Buffer_from nc sf ''hex'' = Inr salt"
    "get_prop data ''iv'' = Inr ivf" "Buffer_from nc ivf ''hex'' = Inr iv"
    "get_prop data ''ciphertext'' = Inr cf" "Buffer_from nc cf ''base64'' = Inr ct"
    "pbkdf2Sync nc (replace_hyphens s) salt 310000 32 ''sha256'' = Inr key"
    "16 \<le> length ct"
    "createDecipheriv nc ''aes-256-gcm'' key iv = Inr d0"
    "setAuthTag nc d0 (drop (length ct - 16) ct) = Inr d1"
    "decipher_update nc d1 (take (length ct - 16) ct) = Inr (partial, d2)"
    "decipher_final nc d2 = Inl e"
  from decrypt_try_final_fails[OF this] s
  show "decryptPrivateKey nc enc secret = Inl (JsError Error ''Invalid card secret'')"
    by (simp add: decrypt_cases)
qed

theorem decryptPrivateKey_opaque_failure_witness:
  "decryptPrivateKey_try toy_crypto ''E0'' (Str ''AAAAA-BBBBB-CCCCC-DDDDD'')
     = Inl (JsError Error ''Invalid ciphertext length'') \<and>
   decryptPrivateKey toy_crypto ''E0'' (Str ''AAAAA-BBBBB-CCCCC-DDDDD'')
     = Inl (JsError Error ''Invalid card secret'')"
  using decryptPrivateKey_opaque_failure
          [of toy_crypto "''E0''" "Str ''AAAAA-BBBBB-CCCCC-DDDDD''"] toy_try_short
  by simp

text \<open>
  C2. \<open>decryptPrivateKey\<close> succeeds with \<open>p\<close> exactly when the envelope parses, its
  salt and iv decode as hex and its ciphertext as base64, PBKDF2 is asked for a key of 32
  bytes with digest sha256 and 310000 iterations from the secret without its hyphens and
  the decoded salt, the ciphertext has at least 16 bytes, and AES-256-GCM under that key
  and iv, with the last 16 bytes as authentication tag and the bytes before them as
  content, decrypts to bytes whose UTF-8 string is \<open>p\<close>. The two slices are the last 16
  bytes and all bytes before them.
\<close>

theorem decryptPrivateKey_key_derivation_and_split:
  "(decryptPrivateKey nc enc (Str secret) = Inr p \<longleftrightarrow>
     (\<exists>data sf salt ivf iv cf ct key d0 d1 upd d2 fin.
        JSON_parse nc enc = Inr data \<and>
        get_prop data ''salt'' = Inr sf \<and> Buffer_from nc sf ''hex'' = Inr salt \<and>
        get_prop data ''iv'' = Inr ivf \<and> Buffer_from nc ivf ''hex'' = Inr iv \<and>
        get_prop data ''ciphertext'' = Inr cf \<and> Buffer_from nc cf ''base64'' = Inr ct \<and>
        pbkdf2Sync nc (replace_hyphens secret) salt 310000 32 ''sha256'' = Inr key \<and>
        16 \<le> length ct \<and>
        createDecipheriv nc ''aes-256-gcm'' key iv = Inr d0 \<and>
        setAuthTag nc d0 (drop (length ct - 16) ct) = Inr d1 \<and>
        decipher_update nc d1 (take (length ct - 16) ct) = Inr (upd, d2) \<and>
        decipher_final nc d2 = Inr fin \<and>
        p = toString_utf8 nc (upd @ fin))) \<and>
   (16 \<le> length buf \<longrightarrow>
      slice buf 0 (- int authTagLength) = take (length buf - 16) buf \<and>
      slice_from buf (- int authTagLength) = drop (length buf - 16) buf \<and>
      length (slice_from buf (- int authTagLength)) = 16 \<and>
      slice buf 0 (- int authTagLength) @ slice_from buf (- int authTagLength) = buf)"
proof -
  have "decryptPrivateKey nc enc (Str secret) = Inr p \<longleftrightarrow>
        decryptPrivateKey_try nc enc (Str secret) = Inr p"
    by (simp add: decrypt_cases split: sum.splits)
  then show ?thesis
    by (simp add: decrypt_try_success authTagLength_def slice_tag slice_content)
qed

theorem decryptPrivateKey_key_derivation_and_split_witness:
  "decryptPrivateKey toy_crypto ''E1'' (Str ''AAAAA-BBBBB-CCCCC-DDDDD'') = Inr ''kkkkkkkk'' \<and>
   (\<exists>salt key.
      pbkdf2Sync toy_crypto ''AAAAABBBBBCCCCCDDDDD'' salt 310000 32 ''sha256'' = Inr key \<and>
      createDecipheriv toy_crypto ''aes-256-gcm'' key (replicate 2 7) = Inr key)"
  using decryptPrivateKey_key_derivation_and_split
          [of toy_crypto "''E1''" "''AAAAA-BBBBB-CCCCC-DDDDD''" "''kkkkkkkk''" "replicate 16 0"]
        toy_decrypt_ok
  by (auto simp: toy_crypto_def)

text \<open>
  C3. Two secrets that are equal once their hyphens are removed give the same result on
  every envelope and with every library. What reaches the key derivation is the secret
  with its hyphens removed and nothing else changed: decryption succeeds exactly when the
  calls of the source succeed with \<open>pbkdf2Sync\<close> given the secret filtered of its hyphens,
  every other character kept in order and in the case typed. So the derivation is
  case-sensitive: with a library that recognises the password \<open>pw\<close>, decryption succeeds
  exactly for the secrets whose hyphen-free form is \<open>pw\<close>, and two secrets with different
  hyphen-free forms (differing in case, say) are told apart by such a library.
\<close>

theorem decryptPrivateKey_hyphen_normalization:
  "(filter (\<lambda>c. c \<noteq> CHR ''-'') s1 = filter (\<lambda>c. c \<noteq> CHR ''-'') s2 \<longrightarrow>
      decryptPrivateKey nc enc (Str s1) = decryptPrivateKey nc enc (Str s2)) \<and>
   (decryptPrivateKey nc enc (Str s) = Inr p \<longleftrightarrow>
     (\<exists>data sf salt ivf iv cf ct key d0 d1 upd d2 fin.
        JSON_parse nc enc = Inr data \<and>
        get_prop data ''salt'' = Inr sf \<and> Buffer_from nc sf ''hex'' = Inr salt \<and>
        get_prop data ''iv'' = Inr ivf \<and> Buffer_from nc ivf ''hex'' = Inr iv \<and>
        get_prop data ''ciphertext'' = Inr cf \<and> Buffer_from nc cf ''base64'' = Inr ct \<and>
        pbkdf2Sync nc (filter (\<lambda>c. c \<noteq> CHR ''-'') s) salt 310000 32 ''sha256'' = Inr key \<and>
        16 \<le> length ct \<and>
        createDecipheriv nc ''aes-256-gcm'' key iv = Inr d0 \<and>
        setAuthTag nc d0 (drop (length ct - 16) ct) = Inr d1 \<and>
        decipher_update nc d1 (take (length ct - 16) ct) = Inr (upd, d2) \<and>
        decipher_final nc d2 = Inr fin \<and>
        p = toString_utf8 nc (upd @ fin))) \<and>
   decryptPrivateKey (password_crypto pw) ''E1'' (Str s) =
     (if filter (\<lambda>c. c \<noteq> CHR ''-'') s = pw then Inr ''kkkkkkkk''
      else Inl (JsError Error ''Invalid card secret'')) \<and>
   (filter (\<lambda>c. c \<noteq> CHR ''-'') s1 \<noteq> filter (\<lambda>c. c \<noteq> CHR ''-'') s2 \<longrightarrow>
      decryptPrivateKey (password_crypto (filter (\<lambda>c. c \<noteq> CHR ''-'') s1)) ''E1'' (Str s1)
        \<noteq> decryptPrivateKey (password_crypto (filter (\<lambda>c. c \<noteq> CHR ''-'') s1)) ''E1'' (Str s2)) \<and>
   replace_hyphens s = filter (\<lambda>c. c \<noteq> CHR ''-'') s"
proof (intro conjI impI)
  assume "filter (\<lambda>c. c \<noteq> CHR ''-'') s1 = filter (\<lambda>c. c \<noteq> CHR ''-'') s2"
  then have "replace_hyphens s1 = replace_hyphens s2"
    by (simp add: replace_hyphens_filter)
  then show "decryptPrivateKey nc enc (Str s1) = decryptPrivateKey nc enc (Str s2)"
    by (simp add: decryptPrivateKey_def decryptPrivateKey_try_def)
next
  let ?pw = "filter (\<lambda>c. c \<noteq> CHR ''-'') s"
  have success: "decryptPrivateKey nc enc (Str s) = Inr p \<longleftrightarrow>
        decryptPrivateKey_try nc enc (Str s) = Inr p"
    by (simp add: decryptPrivateKey_def split: sum.splits)
  have "decryptPrivateKey_try nc enc (Str s) =
     and_then (JSON_parse nc enc) (\<lambda>data.
     and_then (get_prop data ''salt'') (\<lambda>salt_field.
     and_then (Buffer_from nc salt_field ''hex'') (\<lambda>salt.
     and_then (get_prop data ''iv'') (\<lambda>iv_field.
     and_then (Buffer_from nc iv_field ''hex'') (\<lambda>iv.
     and_then (get_prop data ''ciphertext'') (\<lambda>ciphertext_field.
     and_then (Buffer_from nc ciphertext_field ''base64'') (\<lambda>ct.
     and_then (pbkdf2Sync nc ?pw salt 310000 32 ''sha256'') (\<lambda>key.
     if length ct < 16 then Inl (JsError Error ''Invalid ciphertext length'')
     else
       and_then (createDecipheriv nc ''aes-256-gcm'' key iv) (\<lambda>d0.
       and_then (setAuthTag nc d0 (drop (length ct - 16) ct)) (\<lambda>d1.
       and_then (decipher_update nc d1 (take (length ct - 16) ct)) (\<lambda>(upd, d2).
       and_then (decipher_final nc d2) (\<lambda>fin.
       Inr (toString_utf8 nc (upd @ fin))))))))))))))"
    unfolding decryptPrivateKey_try_def authTagLength_def Let_def
    by (auto simp: and_then_def replace_hyphens_filter slice_tag slice_content
             split: sum.splits)
  then have "decryptPrivateKey_try nc enc (Str s) = Inr p \<longleftrightarrow>
     (\<exists>data sf salt ivf iv cf ct key d0 d1 upd d2 fin.
        JSON_parse nc enc = Inr data \<and>
        get_prop data ''salt'' = Inr sf \<and> Buffer_from nc sf ''hex'' = Inr salt \<and>
        get_prop data ''iv'' = Inr ivf \<and> Buffer_from nc ivf ''hex'' = Inr iv \<and>
        get_prop data ''ciphertext'' = Inr cf \<and> Buffer_from nc cf ''base64'' = Inr ct \<and>
        pbkdf2Sync nc ?pw salt 310000 32 ''sha256'' = Inr key \<and>
        16 \<le> length ct \<and>
        createDecipheriv nc ''aes-256-gcm'' key iv = Inr d0 \<and>
        setAuthTag nc d0 (drop (length ct - 16) ct) = Inr d1 \<and>
        decipher_update nc d1 (take (length ct - 16) ct) = Inr (upd, d2) \<and>
        decipher_final nc d2 = Inr fin \<and>
        p = toString_utf8 nc (upd @ fin))"
    by (auto simp: and_then_def split: sum.splits if_splits prod.splits)
  with success show "decryptPrivateKey nc enc (Str s) = Inr p \<longleftrightarrow>
     (\<exists>data sf salt ivf iv cf ct key d0 d1 upd d2 fin.
        JSON_parse nc enc = Inr data \<and>
        get_prop data ''salt'' = Inr sf \<and> Buffer_from nc sf ''hex'' = Inr salt \<and>
        get_prop data ''iv'' = Inr ivf \<and> Buffer_from nc ivf ''hex'' = Inr iv \<and>
        get_prop data ''ciphertext'' = Inr cf \<and> Buffer_from nc cf ''base64'' = Inr ct \<and>
        pbkdf2Sync nc (filter (\<lambda>c. c \<noteq> CHR ''-'') s) salt 310000 32 ''sha256'' = Inr key \<and>
        16 \<le> length ct \<and>
        createDecipheriv nc ''aes-256-gcm'' key iv = Inr d0 \<and>
        setAuthTag nc d0 (drop (length ct - 16) ct) = Inr d1 \<and>
        decipher_update nc d1 (take (length ct - 16) ct) = Inr (upd, d2) \<and>
        decipher_final nc d2 = Inr fin \<and>
        p = toString_utf8 nc (upd @ fin))"
    by simp
next
  show run: "decryptPrivateKey (password_crypto pw) ''E1'' (Str s) =
     (if filter (\<lambda>c. c \<noteq> CHR ''-'') s = pw then Inr ''kkkkkkkk''
      else Inl (JsError Error ''Invalid card secret''))" for pw s
    by (simp add: decryptPrivateKey_def Invalid_card_secret_def decryptPrivateKey_try_def
          and_then_def password_crypto_def toy_crypto_def authTagLength_def slice_def
          slice_from_def clamp_index_def replace_hyphens_filter)
  assume "filter (\<lambda>c. c \<noteq> CHR ''-'') s1 \<noteq> filter (\<lambda>c. c \<noteq> CHR ''-'') s2"
  then show "decryptPrivateKey (password_crypto (filter (\<lambda>c. c \<noteq> CHR ''-'') s1)) ''E1'' (Str s1)
        \<noteq> decryptPrivateKey (password_crypto (filter (\<lambda>c. c \<noteq> CHR ''-'') s1)) ''E1'' (Str s2)"
    by (simp add: run)
next
  show "replace_hyphens s = filter (\<lambda>c. c \<noteq> CHR ''-'') s"
    by (rule replace_hyphens_filter)
qed

theorem decryptPrivateKey_hyphen_normalization_witness:
  "filter (\<lambda>c. c \<noteq> CHR ''-'') ''AAAAA-BBBBB-CCCCC-DDDDD''
     = filter (\<lambda>c. c \<noteq> CHR ''-'') ''AAAAABBBBBCCCCCDDDDD'' \<and>
   decryptPrivateKey toy_crypto ''E1'' (Str ''AAAAA-BBBBB-CCCCC-DDDDD'')
     = decryptPrivateKey toy_crypto ''E1'' (Str ''AAAAABBBBBCCCCCDDDDD'') \<and>
   decryptPrivateKey (password_crypto ''ABCDE'') ''E1'' (Str ''AB-CDE'') = Inr ''kkkkkkkk'' \<and>
   decryptPrivateKey (password_crypto ''ABCDE'') ''E1'' (Str ''abcde'')
     = Inl (JsError Error ''Invalid card secret'') \<and>
   filter (\<lambda>c. c \<noteq> CHR ''-'') ''AB-CDE'' \<noteq> filter (\<lambda>c. c \<noteq> CHR ''-'') ''abcde'' \<and>
   decryptPrivateKey (password_crypto ''ABCDE'') ''E1'' (Str ''AB-CDE'')
     \<noteq> decryptPrivateKey (password_crypto ''ABCDE'') ''E1'' (Str ''abcde'')"
  using decryptPrivateKey_hyphen_normalization[where ?s1.0 = "''AAAAA-BBBBB-CCCCC-DDDDD''" and ?s2.0 = "''AAAAABBBBBCCCCCDDDDD''"
                and nc = toy_crypto and enc = "''E1''" and pw = "''ABCDE''" and s = "''AB-CDE''"
             and p = "''kkkkkkkk''"]
        decryptPrivateKey_hyphen_normalization[where ?s1.0 = "''AB-CDE''" and ?s2.0 = "''abcde''"
                and nc = toy_crypto and enc = "''E1''" and pw = "''ABCDE''" and s = "''abcde''"
             and p = "''kkkkkkkk''"]
  by simp

section \<open>Reasoning about runs\<close>

lemma after_return: "after (io_return a) s Q = Q (Inr a) s"
  by (simp add: after_def io_return_def)

lemma after_lift: "after (io_lift r) s Q = Q r s"
  by (simp add: after_def io_lift_def)

lemma after_bind:
  "after (io_bind m f) s Q =
     after m s (\<lambda>r s'. case r of Inl e \<Rightarrow> Q (Inl e) s' | Inr a \<Rightarrow> after (f a) s' Q)"
  by (auto simp: after_def io_bind_def split: prod.splits sum.splits)

lemma after_catch:
  "after (io_catch m h) s Q =
     after m s (\<lambda>r s'. case r of Inl e \<Rightarrow> after (h e) s' Q | Inr a \<Rightarrow> Q (Inr a) s')"
  by (auto simp: after_def io_catch_def split: prod.splits sum.splits)

lemma after_call:
  "after (io_call ev op) s Q =
     (\<forall>r w'. op (world s) = (r, w') \<longrightarrow> Q r \<lparr>world = w', trace = trace s @ [ev r]\<rparr>)"
  by (auto simp: after_def io_call_def split: prod.splits)

lemma after_if:
  "after (if c then m else n) s Q = ((c \<longrightarrow> after m s Q) \<and> (\<not> c \<longrightarrow> after n s Q))"
  by simp

lemma after_getTokenInfo:
  "after (getTokenInfo nw tokenAddress chainId provider) s Q =
   (if tokenAddress = ''0x0000000000000000000000000000000000000000''
    then (case CHAINS chainId of
            None \<Rightarrow> Q (Inl (JsError TypeError ''Cannot read properties of undefined'')) s
          | Some chain \<Rightarrow>
              Q (Inr \<lparr>ti_symbol = chain_symbol chain, ti_decimals = chain_decimals chain\<rparr>) s)
    else (\<forall>r1 w1 r2 w2.
            erc20_symbol nw provider tokenAddress (world s) = (r1, w1) \<longrightarrow>
            erc20_decimals nw provider tokenAddress w1 = (r2, w2) \<longrightarrow>
            Q (Inr (case and_then r1 (\<lambda>symbol. and_then r2 (\<lambda>decimals.
                            Inr \<lparr>ti_symbol = symbol, ti_decimals = decimals\<rparr>)) of
                      Inl e \<Rightarrow> \<lparr>ti_symbol = ''TOKEN'', ti_decimals = 18\<rparr>
                    | Inr ti \<Rightarrow> ti))
              \<lparr>world = w2,
                trace = trace s @ [Erc20Symbol provider tokenAddress r1,
                                   Erc20Decimals provider tokenAddress r2]\<rparr>))"
  by (auto simp: getTokenInfo_def after_def io_catch_def io_call_def io_return_def io_lift_def
           split: prod.splits sum.splits option.splits)

lemma handle_after:
  "after body s (\<lambda>r s'. P (case r of Inl e \<Rightarrow> on_error e | Inr x \<Rightarrow> x) s') \<Longrightarrow>
   handle body on_error s = (rep, s') \<Longrightarrow> P rep s'"
  by (auto simp: after_def handle_def split: prod.splits sum.splits)

lemmas after_simps = after_return after_lift after_bind after_catch after_call after_if

lemma redeem_catch_status: "reply_status (redeem_catch e) \<noteq> 200"
  by (simp add: redeem_catch_def error_reply_def)

lemma truthy_field:
  "truthy (body_field body k) \<Longrightarrow> get_prop body k' = Inr (body_field body k')"
  by (cases body) (simp_all add: body_field_def)

lemma io_bind_lift_Inr: "io_bind (io_lift (Inr a)) f = f a"
  by (simp add: io_bind_def io_lift_def)




lemma getProvider_supported: "\<not> isl (getProvider cfg c) \<Longrightarrow> c \<in> dom CHAINS"
  by (auto simp: getProvider_def split: option.splits)

subsection \<open>Runs of the redeem handler\<close>

lemma redeem_calls_authorized:
  "redeem cfg nc eth nf nw body (start w) = (rep, s') \<Longrightarrow>
   (\<forall>c a r. EstimateGas c a r \<in> set (trace s') \<longrightarrow>
      authorized_by_card nc eth body (trace s') a) \<and>
   (\<forall>c a opts r. SendTransaction c a opts r \<in> set (trace s') \<longrightarrow>
      authorized_by_card nc eth body (trace s') a)"
  unfolding redeem_def
  by (erule handle_after[rotated])
     (simp add: redeem_try_def getOptimalGasPrice_def after_simps after_getTokenInfo start_def
        Let_def body_field_def authorized_by_card_def redemption_authorization_def and_then_def
      split: sum.split option.split)

lemma redeem_inactive:
  "redeem cfg nc eth nf nw body (start w) = (rep, s') \<Longrightarrow>
   (\<forall>k. fetched_card (trace s') = Some k \<longrightarrow> \<not> card_active k \<longrightarrow>
     rep = error_reply 400 ''This card has already been redeemed or cancelled'' \<and>
     (\<forall>c a r. EstimateGas c a r \<notin> set (trace s')) \<and>
     (\<forall>c a opts r. SendTransaction c a opts r \<notin> set (trace s')) \<and>
     length (trace s') = 1)"
  unfolding redeem_def
  by (erule handle_after[rotated])
     (simp add: redeem_try_def getOptimalGasPrice_def after_simps after_getTokenInfo start_def
        Let_def
      split: sum.split option.split)

lemma redeem_partner_and_gas:
  "redeem cfg nc eth nf nw body (start w) = (rep, s') \<Longrightarrow>
   (\<forall>c a r. EstimateGas c a r \<in> set (trace s') \<longrightarrow> arg_partner a = AddressZero) \<and>
   (\<forall>c a opts r. SendTransaction c a opts r \<in> set (trace s') \<longrightarrow>
      arg_partner a = AddressZero \<and>
      (\<exists>est. EstimateGas c a (Inr est) \<in> set (trace s') \<and>
             gasLimit opts = est * 120 div 100)) \<and>
   (reply_status rep = 200 \<longrightarrow>
      body_field (reply_body rep) ''partnerAddress'' = Null \<and>
      (\<exists>c a opts tx. SendTransaction c a opts (Inr tx) \<in> set (trace s')))"
  unfolding redeem_def
  by (erule handle_after[rotated])
     (simp add: redeem_try_def getOptimalGasPrice_def after_simps after_getTokenInfo start_def
        Let_def redeem_catch_status error_reply_def json_reply_def body_field_def
      split: sum.split option.split)

lemma getProvider_ignores_partner:
  "getProvider (cfg\<lparr>PARTNER_ADDRESS := p\<rparr>) c = getProvider cfg c"
  by (simp add: getProvider_def split: option.split)

lemma redeem_ignores_partner:
  "redeem (cfg\<lparr>PARTNER_ADDRESS := p\<rparr>) nc eth nf nw body = redeem cfg nc eth nf nw body"
  by (simp add: redeem_def redeem_try_def getProvider_ignores_partner cong: if_cong)

lemma redeem_explorer_url:
  "redeem cfg nc eth nf nw body (start w) = (rep, s') \<Longrightarrow>
   (reply_status rep = 200 \<longrightarrow>
      (case fetched_card (trace s') of
         None \<Rightarrow> False
       | Some k \<Rightarrow>
           body_field (reply_body rep) ''explorerUrl''
             = Str (getExplorerUrl (card_chainId k) @ ''/tx/''
                    @ to_string (body_field (reply_body rep) ''txHash'')) \<and>
           \<not> isl (getProvider cfg (card_chainId k))))"
  unfolding redeem_def
  by (erule handle_after[rotated])
     (simp add: redeem_try_def getOptimalGasPrice_def after_simps after_getTokenInfo start_def
        Let_def redeem_catch_status error_reply_def json_reply_def body_field_def
      split: sum.split option.split)




lemma redeem_invalid_address:
  assumes "truthy (body_field body ''cardId'')" "truthy (body_field body ''cardSecret'')"
    "truthy (body_field body ''recipientAddress'')"
    "\<not> isAddress eth (body_field body ''recipientAddress'')"
  shows "redeem cfg nc eth nf nw body s = (error_reply 400 ''Invalid recipient address'', s)"
  using assms
  by (simp add: redeem_def redeem_try_def handle_def truthy_field[OF assms(1)]
        io_bind_lift_Inr io_return_def)


subsection \<open>Runs of the other handlers\<close>



lemma explorer_cases:
  "getExplorerUrl c =
     (if c = 1 then ''https://etherscan.io''
      else if c = 56 then ''https://bscscan.com''
      else if c = 137 then ''https://polygonscan.com''
      else if c = 10 then ''https://optimistic.etherscan.io''
      else if c = 42161 then ''https://arbiscan.io''
      else if c = 8453 then ''https://basescan.org''
      else if c = 43114 then ''https://snowtrace.io''
      else ''https://etherscan.io'')"
  by (simp add: getExplorerUrl_def explorers_def)

subsection \<open>Runs on the concrete instance\<close>

lemmas io_defs = io_return_def io_lift_def io_bind_def io_catch_def io_call_def handle_def
  and_then_def

lemmas toy_defs = toy_config_def toy_ethers_def toy_numbers_def toy_network_def toy_card_def
  toy_start_def toy_request_def start_def toy_good_request_def toy_recipient_def
  toy_inactive_card_def toy_response_def toy_provider_def toy_contract_def toy_args_def
  toy_url_def toy_trace_def toy_success_def toy_end_def

lemmas handler_defs = redeem_def redeem_try_def verify_secret_def verify_secret_try_def
  card_info_def card_info_try_def card_url_def getProvider_def CHAINS_def
  getOptimalGasPrice_def getTokenInfo_def formatTokenAmount_def json_reply_def error_reply_def
  Let_def getExplorerUrl_def explorers_def UNIVOUCHER_ADDRESS_def AddressZero_def

lemma toy_redeem_run:
  "redeem toy_config toy_crypto toy_ethers toy_numbers toy_network toy_good_request
     (toy_start 200 toy_card) = (toy_success, toy_end)"
  by (simp add: handler_defs io_defs toy_defs toy_decrypt_ok)

lemma toy_redeem_inactive_run:
  "redeem toy_config toy_crypto toy_ethers toy_numbers toy_network toy_good_request
     (toy_start 200 toy_inactive_card)
   = (error_reply 400 ''This card has already been redeemed or cancelled'',
      \<lparr>world = \<lparr>registry_status = 200, registry_card = toy_inactive_card\<rparr>,
       trace = [Fetch toy_url (Inr (toy_response toy_inactive_card))]\<rparr>)"
  by (simp add: handler_defs io_defs toy_defs)

lemma toy_authorization:
  "redemption_authorization toy_ethers ''kkkkkkkk'' (Str ''1234567'') (Str toy_recipient)
     = Inr ''sig:wallet:kkkkkkkk''"
  by (simp add: redemption_authorization_def and_then_def toy_ethers_def)



lemma two_key_decrypts:
  "decryptPrivateKey two_key_crypto ''E1'' (Str ''AAAAA-BBBBB-CCCCC-DDDDD'') = Inr ''kkkkkkkk''"
  "decryptPrivateKey two_key_crypto ''E1'' (Str ''BBBBB-AAAAA-DDDDD-CCCCC'') = Inr []"
  by (simp_all add: toy_crypto_run two_key_crypto_def)

lemma two_key_redeem_runs:
  "fst (redeem toy_config two_key_crypto toy_ethers toy_numbers toy_network
          (toy_request ''AAAAA-BBBBB-CCCCC-DDDDD'' toy_recipient) (toy_start 200 toy_card))
     = toy_success"
  "fst (redeem toy_config two_key_crypto toy_ethers toy_numbers toy_network
          (toy_request ''BBBBB-AAAAA-DDDDD-CCCCC'' toy_recipient) (toy_start 200 toy_card))
     = error_reply 500 ''Failed to redeem card''"
  by (simp_all add: handler_defs io_defs toy_defs two_key_decrypts redeem_catch_def)


section \<open>Properties of the handlers\<close>

text \<open>
  C4. In every run of the redeem handler, the signature passed to the contract, in the gas
  estimation and in the submitted transaction alike, is the redemption authorization: the
  personal-message signature (\<open>signMessage\<close> on the bytes of the hash), by the wallet of
  the private key decrypted from the fetched card's envelope with the request's secret, of
  the hash \<open>solidityKeccak256\<close> of \<open>("Redeem card:", cardId, "to:", recipientAddress)\<close>
  with the types \<open>(string, string, string, address)\<close>, in that order; the call names the
  request's card id and recipient.
\<close>

theorem redeem_signature_is_card_authorization:
  "redeem cfg nc eth nf nw body (start w) = (rep, s') \<Longrightarrow>
   (\<forall>c a r. EstimateGas c a r \<in> set (trace s') \<longrightarrow>
      authorized_by_card nc eth body (trace s') a) \<and>
   (\<forall>c a opts r. SendTransaction c a opts r \<in> set (trace s') \<longrightarrow>
      authorized_by_card nc eth body (trace s') a)"
  by (rule redeem_calls_authorized)

theorem redeem_signature_is_card_authorization_witness:
  "redeem toy_config toy_crypto toy_ethers toy_numbers toy_network toy_good_request
     (toy_start 200 toy_card) = (toy_success, toy_end) \<and>
   SendTransaction toy_contract toy_args \<lparr>gasLimit = 120001, gasPrice = 5\<rparr> (Inr ''0xabc'')
     \<in> set (trace toy_end) \<and>
   authorized_by_card toy_crypto toy_ethers toy_good_request (trace toy_end) toy_args \<and>
   redemption_authorization toy_ethers ''kkkkkkkk'' (arg_cardId toy_args) (arg_to toy_args)
     = Inr (arg_signature toy_args)"
proof -
  have run: "redeem toy_config toy_crypto toy_ethers toy_numbers toy_network toy_good_request
     (start \<lparr>registry_status = 200, registry_card = toy_card\<rparr>) = (toy_success, toy_end)"
    using toy_redeem_run by (simp add: toy_start_def)
  have sent: "SendTransaction toy_contract toy_args \<lparr>gasLimit = 120001, gasPrice = 5\<rparr>
      (Inr ''0xabc'') \<in> set (trace toy_end)"
    by (simp add: toy_end_def toy_trace_def)
  from redeem_signature_is_card_authorization[OF run] sent
  have "authorized_by_card toy_crypto toy_ethers toy_good_request (trace toy_end) toy_args"
    by blast
  with toy_redeem_run sent toy_authorization show ?thesis
    by (simp add: toy_args_def)
qed

text \<open>
  C5. When the card a run of the redeem handler fetched has \<open>active = false\<close>, the reply
  is HTTP 400 with the already-redeemed message, the fetch is the only network call of the
  run, and the trace holds no gas estimation and no submitted transaction.
\<close>

theorem redeem_inactive_card_no_submission:
  "redeem cfg nc eth nf nw body (start w) = (rep, s') \<Longrightarrow>
   fetched_card (trace s') = Some k \<Longrightarrow> \<not> card_active k \<Longrightarrow>
   rep = error_reply 400 ''This card has already been redeemed or cancelled'' \<and>
   (\<forall>c a r. EstimateGas c a r \<notin> set (trace s')) \<and>
   (\<forall>c a opts r. SendTransaction c a opts r \<notin> set (trace s')) \<and>
   length (trace s') = 1"
  using redeem_inactive[of cfg nc eth nf nw body w rep s'] by blast

theorem redeem_inactive_card_no_submission_witness:
  "fetched_card [Fetch toy_url (Inr (toy_response toy_inactive_card))] = Some toy_inactive_card \<and>
   \<not> card_active toy_inactive_card \<and>
   fst (redeem toy_config toy_crypto toy_ethers toy_numbers toy_network toy_good_request
          (toy_start 200 toy_inactive_card))
     = error_reply 400 ''This card has already been redeemed or cancelled'' \<and>
   EstimateGas toy_contract toy_args (Inr 100001)
     \<notin> set (trace (snd (redeem toy_config toy_crypto toy_ethers toy_numbers toy_network
                            toy_good_request (toy_start 200 toy_inactive_card))))"
proof -
  let ?end = "\<lparr>world = \<lparr>registry_status = 200, registry_card = toy_inactive_card\<rparr>,
               trace = [Fetch toy_url (Inr (toy_response toy_inactive_card))]\<rparr>"
  have run: "redeem toy_config toy_crypto toy_ethers toy_numbers toy_network toy_good_request
     (start \<lparr>registry_status = 200, registry_card = toy_inactive_card\<rparr>)
     = (error_reply 400 ''This card has already been redeemed or cancelled'', ?end)"
    using toy_redeem_inactive_run by (simp add: toy_start_def)
  have fetched: "fetched_card (trace ?end) = Some toy_inactive_card"
    by (simp add: toy_response_def)
  have inactive: "\<not> card_active toy_inactive_card"
    by (simp add: toy_inactive_card_def)
  from redeem_inactive_card_no_submission[OF run fetched inactive] fetched inactive
    toy_redeem_inactive_run
  show ?thesis by simp
qed

text \<open>
  C6. When the request holds a card id, a secret and a recipient address (each passes the
  handler's presence test) and the recipient is not a valid address, the redeem handler
  replies HTTP 400 "Invalid recipient address" and leaves the state as it found it: the
  trace gains no network call and the world is untouched.
\<close>

theorem redeem_invalid_address_no_network:
  "truthy (body_field body ''cardId'') \<Longrightarrow> truthy (body_field body ''cardSecret'') \<Longrightarrow>
   truthy (body_field body ''recipientAddress'') \<Longrightarrow>
   \<not> isAddress eth (body_field body ''recipientAddress'') \<Longrightarrow>
   redeem cfg nc eth nf nw body s = (error_reply 400 ''Invalid recipient address'', s)"
  by (rule redeem_invalid_address)

theorem redeem_invalid_address_no_network_witness:
  "truthy (body_field (toy_request ''AAAAA-BBBBB-CCCCC-DDDDD'' ''not-an-address'') ''cardId'') \<and>
   \<not> isAddress toy_ethers
       (body_field (toy_request ''AAAAA-BBBBB-CCCCC-DDDDD'' ''not-an-address'')
          ''recipientAddress'') \<and>
   redeem toy_config toy_crypto toy_ethers toy_numbers toy_network
     (toy_request ''AAAAA-BBBBB-CCCCC-DDDDD'' ''not-an-address'') (toy_start 200 toy_card)
   = (error_reply 400 ''Invalid recipient address'', toy_start 200 toy_card) \<and>
   trace (toy_start 200 toy_card) = []"
  using redeem_invalid_address_no_network
          [of "toy_request ''AAAAA-BBBBB-CCCCC-DDDDD'' ''not-an-address''" toy_ethers
              toy_config toy_crypto toy_numbers toy_network "toy_start 200 toy_card"]
  by (simp add: toy_request_def body_field_def toy_ethers_def toy_start_def start_def)

text \<open>
  C7. The spec maps a registry status 404 to HTTP 404 (card unknown) and any other failure
  status to HTTP 500 (upstream error). verify-secret and redeem do not tell them apart:
  with the registry answering status 500, both reply HTTP 404 "Card not found", while
  card-info, on the same answer, replies HTTP 500 and keeps 404 for a registry status 404.
\<close>

theorem registry_failure_reported_as_not_found:
  "fst (verify_secret toy_crypto toy_network toy_good_request (toy_start 500 toy_card))
     = error_reply 404 ''Card not found'' \<and>
   fst (redeem toy_config toy_crypto toy_ethers toy_numbers toy_network toy_good_request
          (toy_start 500 toy_card))
     = error_reply 404 ''Card not found'' \<and>
   fst (card_info toy_config toy_ethers toy_numbers toy_network toy_good_request
          (toy_start 500 toy_card))
     = error_reply 500 ''Failed to get card information'' \<and>
   fst (card_info toy_config toy_ethers toy_numbers toy_network toy_good_request
          (toy_start 404 toy_card))
     = error_reply 404 ''Card not found''"
  by (simp add: handler_defs io_defs toy_defs)

theorem registry_failure_reported_as_not_found_witness:
  "reply_status
     (fst (verify_secret toy_crypto toy_network toy_good_request (toy_start 500 toy_card)))
     = 404 \<and>
   reply_status
     (fst (redeem toy_config toy_crypto toy_ethers toy_numbers toy_network toy_good_request
             (toy_start 500 toy_card)))
     = 404"
  using registry_failure_reported_as_not_found by (simp add: error_reply_def)

text \<open>
  C8. In every run of the redeem handler, every call of the contract's \<open>redeemCard\<close>, the
  gas estimation and the submitted transaction alike, passes the zero address as partner;
  the gas limit of a submitted transaction is the estimate returned for the same call
  times 120 divided by 100, rounded down; a success reply has \<open>partnerAddress\<close> null and
  comes from a run that submitted a transaction; and the configured \<open>PARTNER_ADDRESS\<close>
  has no influence on the handler.
\<close>

theorem redeem_partner_zero_gas_limit:
  "redeem cfg nc eth nf nw body (start w) = (rep, s') \<Longrightarrow>
   (\<forall>c a r. EstimateGas c a r \<in> set (trace s') \<longrightarrow> arg_partner a = AddressZero) \<and>
   (\<forall>c a opts r. SendTransaction c a opts r \<in> set (trace s') \<longrightarrow>
      arg_partner a = AddressZero \<and>
      (\<exists>est. EstimateGas c a (Inr est) \<in> set (trace s') \<and>
             gasLimit opts = est * 120 div 100)) \<and>
   (reply_status rep = 200 \<longrightarrow>
      body_field (reply_body rep) ''partnerAddress'' = Null \<and>
      (\<exists>c a opts tx. SendTransaction c a opts (Inr tx) \<in> set (trace s'))) \<and>
   redeem (cfg\<lparr>PARTNER_ADDRESS := p\<rparr>) nc eth nf nw body = redeem cfg nc eth nf nw body"
  using redeem_partner_and_gas[of cfg nc eth nf nw body w rep s']
        redeem_ignores_partner[where cfg = cfg and p = p and nc = nc and eth = eth and nf = nf
                                 and nw = nw and body = body]
  by blast

theorem redeem_partner_zero_gas_limit_witness:
  "redeem toy_config toy_crypto toy_ethers toy_numbers toy_network toy_good_request
     (toy_start 200 toy_card) = (toy_success, toy_end) \<and>
   SendTransaction toy_contract toy_args \<lparr>gasLimit = 120001, gasPrice = 5\<rparr> (Inr ''0xabc'')
     \<in> set (trace toy_end) \<and>
   arg_partner toy_args = AddressZero \<and>
   PARTNER_ADDRESS toy_config \<noteq> AddressZero \<and>
   (120001 :: nat) = 100001 * 120 div 100 \<and>
   reply_status toy_success = 200 \<and>
   body_field (reply_body toy_success) ''partnerAddress'' = Null"
proof -
  have run: "redeem toy_config toy_crypto toy_ethers toy_numbers toy_network toy_good_request
     (start \<lparr>registry_status = 200, registry_card = toy_card\<rparr>) = (toy_success, toy_end)"
    using toy_redeem_run by (simp add: toy_start_def)
  have sent: "SendTransaction toy_contract toy_args \<lparr>gasLimit = 120001, gasPrice = 5\<rparr>
      (Inr ''0xabc'') \<in> set (trace toy_end)"
    by (simp add: toy_end_def toy_trace_def)
  have ok: "reply_status toy_success = 200"
    by (simp add: toy_success_def)
  from redeem_partner_zero_gas_limit[OF run] sent ok
  have "arg_partner toy_args = AddressZero"
    and "body_field (reply_body toy_success) ''partnerAddress'' = Null"
    by blast+
  with toy_redeem_run sent ok show ?thesis
    by (simp add: toy_config_def AddressZero_def)
qed



text \<open>
  C9 as first stated, with the redeem reply independent of the secret beyond whether
  decryption succeeded, fails: with a cipher that authenticates the envelope under two
  keys, two secrets both decrypt it, to different plaintexts; the redemption with one
  succeeds and with the other, whose plaintext is no private key, is answered HTTP 500.
\<close>

theorem redeem_reply_depends_on_decrypted_key:
  "decryptPrivateKey two_key_crypto ''E1'' (Str ''AAAAA-BBBBB-CCCCC-DDDDD'') = Inr ''kkkkkkkk'' \<and>
   decryptPrivateKey two_key_crypto ''E1'' (Str ''BBBBB-AAAAA-DDDDD-CCCCC'') = Inr [] \<and>
   fst (redeem toy_config two_key_crypto toy_ethers toy_numbers toy_network
          (toy_request ''AAAAA-BBBBB-CCCCC-DDDDD'' toy_recipient) (toy_start 200 toy_card))
     = toy_success \<and>
   reply_status toy_success = 200 \<and>
   fst (redeem toy_config two_key_crypto toy_ethers toy_numbers toy_network
          (toy_request ''BBBBB-AAAAA-DDDDD-CCCCC'' toy_recipient) (toy_start 200 toy_card))
     = error_reply 500 ''Failed to redeem card''"
  using two_key_decrypts two_key_redeem_runs by (simp add: toy_success_def)

text \<open>
  C10. \<open>getExplorerUrl\<close> returns, for every chain id, one of the seven configured explorer
  URLs: the table's entry for a configured id, and \<open>https://etherscan.io\<close> for any other.
  A success reply of the redeem handler carries, as \<open>explorerUrl\<close>, the explorer of the
  fetched card's chain followed by \<open>/tx/\<close> and the reply's \<open>txHash\<close>; the chain of a
  successful redemption is always one of the supported chains, since the provider is
  resolved first.
\<close>

theorem getExplorerUrl_total_with_fallback:
  "getExplorerUrl c \<in> snd ` set explorers \<and>
   (\<forall>url. (c, url) \<in> set explorers \<longrightarrow> getExplorerUrl c = url) \<and>
   (c \<notin> {1, 56, 137, 10, 42161, 8453, 43114} \<longrightarrow> getExplorerUrl c = ''https://etherscan.io'') \<and>
   fst ` set explorers = {1, 56, 137, 10, 42161, 8453, 43114} \<and>
   (redeem cfg nc eth nf nw body (start w) = (rep, s') \<longrightarrow> reply_status rep = 200 \<longrightarrow>
      (case fetched_card (trace s') of
         None \<Rightarrow> False
       | Some k \<Rightarrow>
           body_field (reply_body rep) ''explorerUrl''
             = Str (getExplorerUrl (card_chainId k) @ ''/tx/''
                    @ to_string (body_field (reply_body rep) ''txHash'')) \<and>
           card_chainId k \<in> dom CHAINS))"
proof (intro conjI impI allI)
  show "getExplorerUrl c \<in> snd ` set explorers"
    by (simp add: explorer_cases) (simp add: explorers_def)
next
  fix url assume "(c, url) \<in> set explorers"
  then show "getExplorerUrl c = url"
    by (auto simp: explorer_cases explorers_def)
next
  assume "c \<notin> {1, 56, 137, 10, 42161, 8453, 43114}"
  then show "getExplorerUrl c = ''https://etherscan.io''"
    by (simp add: explorer_cases)
next
  show "fst ` set explorers = {1, 56, 137, 10, 42161, 8453, 43114}"
    by (simp add: explorers_def)
next
  assume "redeem cfg nc eth nf nw body (start w) = (rep, s')" "reply_status rep = 200"
  with redeem_explorer_url[of cfg nc eth nf nw body w rep s']
  show "case fetched_card (trace s') of
         None \<Rightarrow> False
       | Some k \<Rightarrow>
           body_field (reply_body rep) ''explorerUrl''
             = Str (getExplorerUrl (card_chainId k) @ ''/tx/''
                    @ to_string (body_field (reply_body rep) ''txHash'')) \<and>
           card_chainId k \<in> dom CHAINS"
    by (auto split: option.splits dest: getProvider_supported)
qed

theorem getExplorerUrl_total_with_fallback_witness:
  "(999 :: int) \<notin> {1, 56, 137, 10, 42161, 8453, 43114} \<and>
   getExplorerUrl 999 = ''https://etherscan.io'' \<and>
   (8453, ''https://basescan.org'') \<in> set explorers \<and>
   getExplorerUrl 8453 = ''https://basescan.org'' \<and>
   redeem toy_config toy_crypto toy_ethers toy_numbers toy_network toy_good_request
     (toy_start 200 toy_card) = (toy_success, toy_end) \<and>
   reply_status toy_success = 200 \<and>
   body_field (reply_body toy_success) ''explorerUrl'' = Str ''https://etherscan.io/tx/0xabc''"
proof -
  have run: "redeem toy_config toy_crypto toy_ethers toy_numbers toy_network toy_good_request
     (start \<lparr>registry_status = 200, registry_card = toy_card\<rparr>) = (toy_success, toy_end)"
    using toy_redeem_run by (simp add: toy_start_def)
  note fallback = getExplorerUrl_total_with_fallback
      [where c = 999 and cfg = toy_config and nc = toy_crypto and eth = toy_ethers
         and nf = toy_numbers and nw = toy_network and body = toy_good_request
         and w = "\<lparr>registry_status = 200, registry_card = toy_card\<rparr>"
         and rep = toy_success and s' = toy_end]
  note configured = getExplorerUrl_total_with_fallback
      [where c = 8453 and cfg = toy_config and nc = toy_crypto and eth = toy_ethers
         and nf = toy_numbers and nw = toy_network and body = toy_good_request
         and w = "\<lparr>registry_status = 200, registry_card = toy_card\<rparr>"
         and rep = toy_success and s' = toy_end]
  have "getExplorerUrl 999 = ''https://etherscan.io''"
    using fallback by simp
  moreover have "getExplorerUrl 8453 = ''https://basescan.org''"
    using configured by (simp add: explorers_def)
  ultimately show ?thesis
    using toy_redeem_run by (simp add: explorers_def toy_success_def body_field_def)
qed

end
